theory Spec2Isabelle
  imports Complex_Main
begin

section \<open>JavaScript values used by the function\<close>

text \<open>
  The development embeds \<^verbatim>\<open>netlify/functions/ebaySales.ts\<close>. A JavaScript number is modelled
  by an exact rational; \<open>NaN\<close> is a separate value and the infinities are outside the model.
  A field that may be \<^verbatim>\<open>undefined\<close> or \<^verbatim>\<open>null\<close> is an \<open>option\<close>.
\<close>

datatype jsval = Undefined | Num rat | NaN

fun js_add :: "jsval \<Rightarrow> jsval \<Rightarrow> jsval" where
  "js_add (Num a) (Num b) = Num (a + b)"
| "js_add _ _ = NaN"

fun js_sub :: "jsval \<Rightarrow> jsval \<Rightarrow> jsval" where
  "js_sub (Num a) (Num b) = Num (a - b)"
| "js_sub _ _ = NaN"

fun js_mul :: "jsval \<Rightarrow> jsval \<Rightarrow> jsval" where
  "js_mul (Num a) (Num b) = Num (a * b)"
| "js_mul _ _ = NaN"

text \<open>An array element that is \<^verbatim>\<open>undefined\<close> is \<open>None\<close>; reading it gives \<open>Undefined\<close>.\<close>

fun to_jsval :: "rat option \<Rightarrow> jsval" where
  "to_jsval None = Undefined"
| "to_jsval (Some x) = Num x"

text \<open>
  \<^verbatim>\<open>arr[i]\<close>: an index outside \<open>0 .. length - 1\<close> (a negative one too) reads \<^verbatim>\<open>undefined\<close>.
\<close>

definition js_index :: "rat option list \<Rightarrow> int \<Rightarrow> rat option" where
  "js_index xs i = (if 0 \<le> i \<and> i < int (length xs) then xs ! nat i else None)"

text \<open>
  \<^verbatim>\<open>[...arr].sort((a, b) => a - b)\<close>: \<^verbatim>\<open>Array.prototype.sort\<close> moves every
  \<^verbatim>\<open>undefined\<close> element to the end without calling the comparator, and orders the numbers
  ascending.
\<close>

definition js_sort :: "rat option list \<Rightarrow> rat option list" where
  "js_sort arr = map Some (sort (List.map_filter id arr)) @ filter (\<lambda>x. x = None) arr"

section \<open>Strings\<close>

text \<open>
  A string is the list of the bytes of its UTF-8 encoding, so equality, \<^verbatim>\<open>includes\<close> and
  \<^verbatim>\<open>replace\<close> (with a string pattern: first occurrence only) are those of the list.
  \<^verbatim>\<open>trim\<close> removes the white space and line terminators of ECMAScript at both ends: the six
  ASCII ones, U+00A0, U+1680, U+2000 to U+200A, U+2028, U+2029, U+202F, U+205F, U+3000 and
  U+FEFF, each by its encoding. \<^verbatim>\<open>toLowerCase\<close> is written out for the ASCII letters; it is
  used only to look for \<^verbatim>\<open>free\<close> and \<^verbatim>\<open>bids\<close>, which no other letter lowers into.
\<close>

definition is_space :: "char \<Rightarrow> bool" where
  "is_space c = (c = CHR '' '' \<or> c = CHR 0x09 \<or> c = CHR 0x0A \<or> c = CHR 0x0B
                 \<or> c = CHR 0x0C \<or> c = CHR 0x0D)"

text \<open>U+00A0 is the two bytes C2 A0.\<close>

definition is_space2 :: "char \<Rightarrow> char \<Rightarrow> bool" where
  "is_space2 a b = (a = CHR 0xC2 \<and> b = CHR 0xA0)"

text \<open>The three-byte ones: U+1680 is E1 9A 80, U+2000 to U+200A are E2 80 80 to E2 80 8A,
  U+2028, U+2029 and U+202F are E2 80 A8, E2 80 A9 and E2 80 AF, U+205F is E2 81 9F,
  U+3000 is E3 80 80 and U+FEFF is EF BB BF.\<close>

definition is_space3 :: "char \<Rightarrow> char \<Rightarrow> char \<Rightarrow> bool" where
  "is_space3 a b c =
     ((a = CHR 0xE1 \<and> b = CHR 0x9A \<and> c = CHR 0x80)
      \<or> (a = CHR 0xE2 \<and> b = CHR 0x80
          \<and> ((128 \<le> (of_char c :: nat) \<and> (of_char c :: nat) \<le> 138)
              \<or> c = CHR 0xA8 \<or> c = CHR 0xA9 \<or> c = CHR 0xAF))
      \<or> (a = CHR 0xE2 \<and> b = CHR 0x81 \<and> c = CHR 0x9F)
      \<or> (a = CHR 0xE3 \<and> b = CHR 0x80 \<and> c = CHR 0x80)
      \<or> (a = CHR 0xEF \<and> b = CHR 0xBB \<and> c = CHR 0xBF))"

text \<open>\<^verbatim>\<open>trimStart\<close>: white space is removed from the front, one code point at a time.\<close>

fun trimStart :: "string \<Rightarrow> string" where
  "trimStart [] = []"
| "trimStart (a # s) =
     (if is_space a then trimStart s
      else (case s of
              [] \<Rightarrow> a # s
            | b # t \<Rightarrow>
                if is_space2 a b then trimStart t
                else (case t of
                        [] \<Rightarrow> a # s
                      | c # u \<Rightarrow> if is_space3 a b c then trimStart u else a # s)))"

text \<open>\<^verbatim>\<open>trimEnd\<close>: the string is kept up to the point from which only white space follows.\<close>

fun trimEnd :: "string \<Rightarrow> string" where
  "trimEnd [] = []"
| "trimEnd (a # s) = (if trimStart (a # s) = [] then [] else a # trimEnd s)"

definition js_trim :: "string \<Rightarrow> string" where
  "js_trim s = trimEnd (trimStart s)"

definition lower_char :: "char \<Rightarrow> char" where
  "lower_char c = (let n = (of_char c :: nat) in if 65 \<le> n \<and> n \<le> 90 then char_of (n + 32) else c)"

definition toLowerCase :: "string \<Rightarrow> string" where
  "toLowerCase s = map lower_char s"

fun starts_with :: "string \<Rightarrow> string \<Rightarrow> bool" where
  "starts_with s [] = True"
| "starts_with [] (p # ps) = False"
| "starts_with (c # cs) (p # ps) = (c = p \<and> starts_with cs ps)"

fun js_includes :: "string \<Rightarrow> string \<Rightarrow> bool" where
  "js_includes [] p = starts_with [] p"
| "js_includes (c # cs) p = (starts_with (c # cs) p \<or> js_includes cs p)"

fun replace_first :: "string \<Rightarrow> string \<Rightarrow> string \<Rightarrow> string" where
  "replace_first [] p r = (if p = [] then r else [])"
| "replace_first (c # cs) p r =
     (if starts_with (c # cs) p then r @ drop (length p) (c # cs)
      else c # replace_first cs p r)"

text \<open>\<^verbatim>\<open>q.replace(/ /g, '+')\<close>: every space becomes a plus sign.\<close>

definition replace_spaces :: "string \<Rightarrow> string" where
  "replace_spaces s = map (\<lambda>c. if c = CHR '' '' then CHR ''+'' else c) s"

section \<open>Data model\<close>

text \<open>The type \<^verbatim>\<open>SoldItem\<close> (lines 20-29); a field the object does not have is \<open>None\<close>.\<close>

record listing =
  title :: string
  price :: "rat option"
  currency :: "string option"
  soldDate :: "string option"
  condition :: "string option"
  imageUrl :: "string option"
  itemUrl :: "string option"
  shipping :: "string option"

text \<open>The object returned by \<^verbatim>\<open>calculateSalesMetrics\<close>.\<close>

record stats =
  count :: nat
  p25 :: jsval
  median :: jsval
  p75 :: jsval

section \<open>Stats calculator\<close>

text \<open>\<^verbatim>\<open>quantile\<close>, lines 209-219.\<close>

definition quantile :: "rat option list \<Rightarrow> rat \<Rightarrow> jsval" where
  "quantile arr q =
     (let sorted = js_sort arr;
          pos = (of_nat (length sorted) - 1) * q;
          base = \<lfloor>pos\<rfloor>;
          rest = pos - of_int base
      in if js_index sorted (base + 1) \<noteq> None
         then js_add (to_jsval (js_index sorted base))
                (js_mul (Num rest)
                   (js_sub (to_jsval (js_index sorted (base + 1)))
                           (to_jsval (js_index sorted base))))
         else to_jsval (js_index sorted base))"

text \<open>\<^verbatim>\<open>calculateSalesMetrics\<close>, lines 187-207.\<close>

definition calculateSalesMetrics :: "listing list \<Rightarrow> stats" where
  "calculateSalesMetrics items =
     (let totalSales = length items;
          p75 = quantile (map price items) (3 / 4);
          p25 = quantile (map price items) (1 / 4);
          median = quantile (map price items) (1 / 2)
      in \<lparr>count = totalSales, p25 = p25, median = median, p75 = p75\<rparr>)"

text \<open>
  The estimator as the specification words it: sort the prices ascending, let
  \<open>pos = (n - 1) * q\<close>, \<open>base = floor pos\<close>, \<open>rest = pos - base\<close>; the result is
  \<open>sorted[base]\<close> when \<open>base + 1\<close> is out of range and
  \<open>sorted[base] + rest * (sorted[base + 1] - sorted[base])\<close> otherwise.
\<close>

definition r7_quantile :: "rat list \<Rightarrow> rat \<Rightarrow> rat" where
  "r7_quantile xs q =
     (let sorted = sort xs;
          pos = (of_nat (length xs) - 1) * q;
          base = nat \<lfloor>pos\<rfloor>;
          rest = pos - of_nat base
      in if base + 1 < length xs
         then sorted ! base + rest * (sorted ! (base + 1) - sorted ! base)
         else sorted ! base)"

section \<open>The environment of one invocation\<close>

text \<open>A thrown value: the \<^verbatim>\<open>Error\<close> of line 284 with the HTTP status in its message, a
  \<^verbatim>\<open>TypeError\<close> of the runtime (named by the property read), or a failure of an upstream call.\<close>

datatype js_error = SerpAPIError nat | TypeError string | UpstreamError string

text \<open>The result of \<^verbatim>\<open>parseCurrency\<close> (package \<^verbatim>\<open>parsecurrency\<close>), as far as the function
  reads it.\<close>

record parsed =
  pvalue :: rat
  pcurrency :: string
  psymbol :: string

text \<open>
  One element selected by \<^verbatim>\<open>$('.su-card-container')\<close>, given by the texts that the selectors of
  lines 154-169 read in it: the title, the price text, the first label of the subtitle, and the
  texts of the children of the attribute block.
\<close>

record card =
  card_title :: string
  card_price :: string
  card_condition :: string
  card_attributes :: "string list"

text \<open>One element of \<^verbatim>\<open>organic_results\<close> in the JSON of the fallback provider.\<close>

record price_field =
  raw :: "string option"

datatype shipping_field = ShippingText string | ShippingObject "string option" "rat option"

record raw_item =
  it_title :: "string option"
  it_price :: "price_field option"
  it_thumbnail :: "string option"
  it_link :: "string option"
  it_sold_at :: "string option"
  it_shipping :: "shipping_field option"
  it_condition :: "string option"

record serp_json =
  organic_results :: "raw_item list option"

text \<open>The response of \<^verbatim>\<open>fetch\<close>: \<^verbatim>\<open>r.ok\<close>, \<^verbatim>\<open>r.status\<close>, and what \<^verbatim>\<open>r.json()\<close> gives.\<close>

record http_response =
  ok :: bool
  status :: nat
  json :: "js_error + serp_json option"

type_synonym params = "(string \<times> string) list"

text \<open>
  Everything the function reads from outside: the clock (at line 37, at the cache write, and in
  \<^verbatim>\<open>new Date().toISOString()\<close>), the two keys of \<^verbatim>\<open>process.env\<close>, the primary provider (from
  key and URL to the cards of the page it returns, or a thrown error), the fallback provider
  (from the search parameters to a response, or a thrown error), and the library functions
  \<^verbatim>\<open>parseCurrency\<close> and \<^verbatim>\<open>Number.prototype.toString\<close>.
\<close>

record env =
  now_start :: int
  now_store :: int
  now_iso :: string
  BEE_KEY :: "string option"
  SERP_KEY :: "string option"
  bee_get :: "string \<Rightarrow> string \<Rightarrow> js_error + card list"
  serp_fetch :: "params \<Rightarrow> js_error + http_response"
  parseCurrency :: "string \<Rightarrow> parsed option"
  number_toString :: "rat \<Rightarrow> string"

text \<open>The upstream calls an invocation makes, in order.\<close>

datatype call = BeeGet string string | FetchSerp string | SerpHttp params

section \<open>Price parser and shipping normalizer\<close>

text \<open>\<^verbatim>\<open>parsePrice\<close>, lines 221-231.\<close>

definition parsePrice :: "env \<Rightarrow> string \<Rightarrow> parsed option" where
  "parsePrice e priceStr = (if js_trim priceStr = [] then None else parseCurrency e priceStr)"

text \<open>\<^verbatim>\<open>getShippingCost\<close>, lines 234-262. Reading \<^verbatim>\<open>extracted\<close> of an absent shipping field, or
  calling \<^verbatim>\<open>toString\<close> on an absent \<^verbatim>\<open>extracted\<close>, throws.\<close>

definition getShippingCost :: "env \<Rightarrow> shipping_field option \<Rightarrow> js_error + string" where
  "getShippingCost e sh =
     (case sh of
        Some (ShippingText s) \<Rightarrow>
          if \<not> js_includes (toLowerCase s) ''free'' \<and> \<not> js_includes (toLowerCase s) ''bids''
             \<and> js_includes s ''delivery''
          then (let formattedShipping = replace_first (replace_first s '' delivery'' []) ''+'' []
                in case parsePrice e formattedShipping of
                     Some parsedShipping \<Rightarrow> Inr (number_toString e (pvalue parsedShipping))
                   | None \<Rightarrow> Inr (number_toString e 0))
          else if \<not> js_includes (toLowerCase s) ''free'' \<and> js_includes (toLowerCase s) ''bids''
          then Inr ''Unknown''
          else Inr (number_toString e 0)
      | Some (ShippingObject r None) \<Rightarrow> Inl (TypeError ''toString'')
      | Some (ShippingObject r (Some x)) \<Rightarrow> Inr (number_toString e x)
      | None \<Rightarrow> Inl (TypeError ''extracted''))"

section \<open>HTML extractor\<close>

text \<open>The body of the callback of \<^verbatim>\<open>each\<close>, lines 154-182: the items after one more card.
  The shipping text of lines 163-172 and the cleaned condition of line 174 are read into
  locals that nothing uses.\<close>

definition extract_card :: "env \<Rightarrow> listing list \<Rightarrow> card \<Rightarrow> listing list" where
  "extract_card e items c =
     (let title = card_title c;
          parsedPrice = parsePrice e (card_price c);
          condition = card_condition c
      in if title \<noteq> ''Shop on eBay'' \<and> condition \<noteq> []
         then items @ [\<lparr>title = title, price = map_option pvalue parsedPrice, currency = None,
                         soldDate = None, condition = None, imageUrl = None, itemUrl = None,
                         shipping = None\<rparr>]
         else items)"

text \<open>\<^verbatim>\<open>extractSellItemsFromHTML\<close>, lines 149-185: the loop over the cards in document order,
  starting from the empty array.\<close>

definition extractSellItemsFromHTML :: "env \<Rightarrow> card list \<Rightarrow> string \<Rightarrow> listing list" where
  "extractSellItemsFromHTML e html query = foldl (extract_card e) [] html"

section \<open>Fallback client\<close>

text \<open>The callback of \<^verbatim>\<open>map\<close>, lines 288-300.\<close>

definition map_item :: "env \<Rightarrow> raw_item \<Rightarrow> js_error + listing" where
  "map_item e it =
     (case it_price it of
        None \<Rightarrow> Inl (TypeError ''raw'')
      | Some pr \<Rightarrow>
          (let p = parsePrice e (case raw pr of None \<Rightarrow> [] | Some s \<Rightarrow> s)
           in case getShippingCost e (it_shipping it) of
                Inl err \<Rightarrow> Inl err
              | Inr sh \<Rightarrow>
                  Inr \<lparr>title = (case it_title it of None \<Rightarrow> [] | Some s \<Rightarrow> s),
                       price = Some (case p of None \<Rightarrow> 0 | Some v \<Rightarrow> pvalue v),
                       currency = Some (case p of None \<Rightarrow> ''USD''
                                        | Some v \<Rightarrow> if pcurrency v = [] then ''USD'' else pcurrency v),
                       soldDate = Some (case it_sold_at it of None \<Rightarrow> now_iso e
                                        | Some s \<Rightarrow> if s = [] then now_iso e else s),
                       condition = Some (case it_condition it of None \<Rightarrow> ''Unknown''
                                         | Some s \<Rightarrow> if s = [] then ''Unknown'' else s),
                       imageUrl = Some (case it_thumbnail it of None \<Rightarrow> [] | Some s \<Rightarrow> s),
                       itemUrl = Some (case it_link it of None \<Rightarrow> [] | Some s \<Rightarrow> s),
                       shipping = Some sh\<rparr>))"

text \<open>\<^verbatim>\<open>Array.prototype.map\<close> with a callback that may throw: the first throw ends the mapping.\<close>

fun map_items :: "env \<Rightarrow> raw_item list \<Rightarrow> js_error + listing list" where
  "map_items e [] = Inr []"
| "map_items e (it # its) =
     (case map_item e it of
        Inl err \<Rightarrow> Inl err
      | Inr x \<Rightarrow> (case map_items e its of Inl err \<Rightarrow> Inl err | Inr xs \<Rightarrow> Inr (x # xs)))"

text \<open>The predicate of \<^verbatim>\<open>filter\<close>, line 301.\<close>

definition retained :: "listing \<Rightarrow> bool" where
  "retained x = (title x \<noteq> [] \<and> itemUrl x \<noteq> None \<and> itemUrl x \<noteq> Some []
                 \<and> (case price x of None \<Rightarrow> False | Some v \<Rightarrow> 0 < v))"

text \<open>The array that is mapped, line 287: \<^verbatim>\<open>j?.organic_results || []\<close>.\<close>

definition organic_list :: "serp_json option \<Rightarrow> raw_item list" where
  "organic_list j = (case j of None \<Rightarrow> []
                     | Some jj \<Rightarrow> (case organic_results jj of None \<Rightarrow> [] | Some rs \<Rightarrow> rs))"

text \<open>The search parameters set on the URL, lines 271-279.\<close>

definition serp_params :: "string \<Rightarrow> string \<Rightarrow> params" where
  "serp_params q k = [(''engine'', ''ebay''), (''ebay_domain'', ''ebay.com''), (''q'', q),
                      (''sold'', ''false''), (''completed'', ''false''), (''_nkw'', q),
                      (''LH_PrefLoc'', ''3''), (''api_key'', k)]"

text \<open>\<^verbatim>\<open>fetchSerp\<close>, lines 264-303: the result (\<open>None\<close> is \<^verbatim>\<open>null\<close>) or the thrown error, and the
  HTTP calls made.\<close>

definition fetchSerp :: "env \<Rightarrow> string \<Rightarrow> (js_error + listing list option) \<times> call list" where
  "fetchSerp e q =
     (case SERP_KEY e of
        None \<Rightarrow> (Inr None, [])
      | Some k \<Rightarrow>
          if k = [] then (Inr None, [])
          else
            (let u = serp_params q k
             in case serp_fetch e u of
                  Inl err \<Rightarrow> (Inl err, [SerpHttp u])
                | Inr r \<Rightarrow>
                    if \<not> ok r then (Inl (SerpAPIError (status r)), [SerpHttp u])
                    else
                      (case json r of
                         Inl err \<Rightarrow> (Inl err, [SerpHttp u])
                       | Inr j \<Rightarrow>
                           (case map_items e
                                   (case j of None \<Rightarrow> []
                                    | Some jj \<Rightarrow> (case organic_results jj of None \<Rightarrow> [] | Some rs \<Rightarrow> rs)) of
                              Inl err \<Rightarrow> (Inl err, [SerpHttp u])
                            | Inr xs \<Rightarrow> (Inr (Some (filter retained xs)), [SerpHttp u])))))"

section \<open>Result cache and orchestrator\<close>

text \<open>The object stored in \<^verbatim>\<open>cache.data\<close> and sent as the body of a successful response.\<close>

record payload =
  payload_query :: string
  payload_stats :: stats
  payload_items :: "listing list"
  payload_source :: string
  payload_cached :: bool

text \<open>The module-level \<^verbatim>\<open>cache\<close>, lines 13-17; \<open>None\<close> is the initial \<^verbatim>\<open>null\<close>.\<close>

record cache =
  data :: "payload option"
  timestamp :: int
  query :: string

definition initial_cache :: cache where
  "initial_cache = \<lparr>data = None, timestamp = 0, query = []\<rparr>"

definition CACHE_DURATION :: int where
  "CACHE_DURATION = 60 * 60 * 1000"

text \<open>What the function reads of the event: \<^verbatim>\<open>queryStringParameters.q\<close> and \<^verbatim>\<open>httpMethod\<close>.\<close>

record event =
  ev_q :: "string option"
  httpMethod :: string

text \<open>The value given to \<^verbatim>\<open>JSON.stringify\<close> for the body.\<close>

datatype body = JsonError string "js_error option" | JsonPayload payload | Text string

record response =
  statusCode :: nat
  headers :: "(string \<times> string) list"
  body :: body

definition cors_headers :: "(string \<times> string) list" where
  "cors_headers = [(''Access-Control-Allow-Origin'', ''*''), (''Access-Control-Allow-Headers'', ''*''),
                   (''Access-Control-Allow-Methods'', ''*'')]"

text \<open>The lookup of lines 36-38 and 49-54: the cached payload on a hit.\<close>

definition cache_lookup :: "env \<Rightarrow> cache \<Rightarrow> string \<Rightarrow> payload option" where
  "cache_lookup e c q =
     (let durationFromLastFetch = (if timestamp c \<noteq> 0 then Some (now_start e - timestamp c) else None)
      in case data c of
           None \<Rightarrow> None
         | Some d \<Rightarrow>
             (case durationFromLastFetch of
                None \<Rightarrow> None
              | Some dur \<Rightarrow> if dur < CACHE_DURATION \<and> query c = q then Some d else None))"

text \<open>The cache write of lines 97-105 and 109-117.\<close>

definition cache_store :: "env \<Rightarrow> string \<Rightarrow> stats \<Rightarrow> listing list \<Rightarrow> string \<Rightarrow> cache" where
  "cache_store e q st items src =
     \<lparr>data = Some \<lparr>payload_query = q, payload_stats = st, payload_items = items,
                    payload_source = src, payload_cached = True\<rparr>,
      timestamp = now_store e, query = q\<rparr>"

text \<open>The response of lines 120-134.\<close>

definition fresh_response :: "string \<Rightarrow> stats \<Rightarrow> listing list \<Rightarrow> string \<Rightarrow> response" where
  "fresh_response q st items src =
     \<lparr>statusCode = 200, headers = cors_headers,
      body = JsonPayload \<lparr>payload_query = q, payload_stats = st, payload_items = items,
                          payload_source = src, payload_cached = False\<rparr>\<rparr>"

text \<open>The URL of line 81 and the key of line 82.\<close>

definition scrapURL :: "string \<Rightarrow> string" where
  "scrapURL q = ''https://www.ebay.com/sch/i.html?_nkw='' @ replace_spaces q
                @ ''&_sop=12&LH_Active=1&_ipg=240&LH_PrefLoc=3''"

definition bee_key :: "env \<Rightarrow> string" where
  "bee_key e = (case BEE_KEY e of None \<Rightarrow> [] | Some k \<Rightarrow> k)"

text \<open>
  The block under \<^verbatim>\<open>try\<close>, lines 36-134: the response or the thrown error, the cache as it is
  when the block is left, and the upstream calls made. (The statistics of line 87 are
  recomputed in both branches and not used in between.)
\<close>

definition handler_try :: "env \<Rightarrow> cache \<Rightarrow> event \<Rightarrow> (js_error + response) \<times> cache \<times> call list" where
  "handler_try e c ev =
     (case ev_q ev of
        None \<Rightarrow>
          (Inr \<lparr>statusCode = 400, headers = [],
                body = JsonError ''Missing query parameter q'' None\<rparr>, c, [])
      | Some q \<Rightarrow>
          if q = [] \<or> js_trim q = []
          then (Inr \<lparr>statusCode = 400, headers = [],
                     body = JsonError ''Missing query parameter q'' None\<rparr>, c, [])
          else
            (case cache_lookup e c q of
               Some d \<Rightarrow>
                 (Inr \<lparr>statusCode = 200, headers = cors_headers, body = JsonPayload d\<rparr>, c, [])
             | None \<Rightarrow>
                 if httpMethod ev = ''OPTIONS''
                 then (Inr \<lparr>statusCode = 200, headers = cors_headers,
                            body = Text ''Preflight check successful''\<rparr>, c, [])
                 else
                   (case bee_get e (bee_key e) (scrapURL q) of
                      Inl err \<Rightarrow> (Inl err, c, [BeeGet (bee_key e) (scrapURL q)])
                    | Inr rawHTML \<Rightarrow>
                        (let items = extractSellItemsFromHTML e rawHTML q
                         in if length items < 3
                            then
                              (case fetchSerp e q of
                                 (Inl err, calls) \<Rightarrow>
                                   (Inl err, c, BeeGet (bee_key e) (scrapURL q) # FetchSerp q # calls)
                               | (Inr r, calls) \<Rightarrow>
                                   (let serpItems = (case r of None \<Rightarrow> [] | Some xs \<Rightarrow> xs);
                                        st = calculateSalesMetrics serpItems
                                    in (Inr (fresh_response q st serpItems ''serpapi''),
                                        cache_store e q st serpItems ''serpapi'',
                                        BeeGet (bee_key e) (scrapURL q) # FetchSerp q # calls)))
                            else
                              (let st = calculateSalesMetrics items
                               in (Inr (fresh_response q st items ''scrapingbee''),
                                   cache_store e q st items ''scrapingbee'',
                                   [BeeGet (bee_key e) (scrapURL q)]))))))"

text \<open>\<^verbatim>\<open>handler\<close>, lines 31-147: the block above under its \<^verbatim>\<open>catch\<close>, lines 135-146.\<close>

definition handler :: "env \<Rightarrow> cache \<Rightarrow> event \<Rightarrow> response \<times> cache \<times> call list" where
  "handler e c ev =
     (case handler_try e c ev of
        (Inl err, c', calls) \<Rightarrow>
          (\<lparr>statusCode = 500, headers = cors_headers,
            body = JsonError ''Internal Server Error'' (Some err)\<rparr>, c', calls)
      | (Inr r, c', calls) \<Rightarrow> (r, c', calls))"

text \<open>The \<^verbatim>\<open>source\<close> field of a response, when its body has one.\<close>

definition response_source :: "response \<Rightarrow> string option" where
  "response_source r = (case body r of JsonPayload d \<Rightarrow> Some (payload_source d) | _ \<Rightarrow> None)"

text \<open>The \<^verbatim>\<open>items\<close> field of a response, when its body has one.\<close>

definition response_items :: "response \<Rightarrow> listing list" where
  "response_items r = (case body r of JsonPayload d \<Rightarrow> payload_items d | _ \<Rightarrow> [])"

text \<open>
  The cache states a process can be in: the initial one, and the one left by any invocation
  from such a state. \<^verbatim>\<open>Date.now()\<close> counts milliseconds since 1970 and is positive.
\<close>

inductive reachable :: "cache \<Rightarrow> bool" where
  reachable_init: "reachable initial_cache"
| reachable_step:
    "reachable c \<Longrightarrow> 0 < now_start e \<Longrightarrow> 0 < now_store e \<Longrightarrow> handler e c ev = (r, c', calls)
     \<Longrightarrow> reachable c'"

section \<open>Example inputs\<close>

text \<open>A stand-in for \<^verbatim>\<open>parseCurrency\<close> on a few dollar prices, and one for the number printer.\<close>

definition demo_parse :: "string \<Rightarrow> parsed option" where
  "demo_parse s =
     (if s = ''$5.00'' then Some \<lparr>pvalue = 5, pcurrency = ''USD'', psymbol = ''$''\<rparr>
      else if s = ''$10.00'' then Some \<lparr>pvalue = 10, pcurrency = ''USD'', psymbol = ''$''\<rparr>
      else if s = ''$20.00'' then Some \<lparr>pvalue = 20, pcurrency = ''USD'', psymbol = ''$''\<rparr>
      else if s = ''$30.00'' then Some \<lparr>pvalue = 30, pcurrency = ''USD'', psymbol = ''$''\<rparr>
      else None)"

definition demo_toString :: "rat \<Rightarrow> string" where
  "demo_toString x = (if x = 0 then ''0'' else if x = 5 then ''5'' else ''10'')"

definition demo_card :: "string \<Rightarrow> string \<Rightarrow> string \<Rightarrow> card" where
  "demo_card t p c = \<lparr>card_title = t, card_price = p, card_condition = c, card_attributes = []\<rparr>"

text \<open>A page of five cards: a sponsored placeholder, three ordinary listings, and one card
  without a condition label.\<close>

definition demo_page :: "card list" where
  "demo_page = [demo_card ''Shop on eBay'' ''$20.00'' ''Brand New'',
                demo_card ''Camera A'' ''$30.00'' ''Pre-Owned'',
                demo_card ''Camera B'' ''$10.00'' ''Brand New'',
                demo_card ''Camera C'' ''$5.00'' [],
                demo_card ''Camera D'' ''$20.00'' ''Pre-Owned'']"

text \<open>A page of two listings, and a page of three cards whose second has no price element.\<close>

definition short_page :: "card list" where
  "short_page = [demo_card ''Camera A'' ''$30.00'' ''Pre-Owned'',
                 demo_card ''Camera B'' ''$10.00'' ''Brand New'']"

definition unpriced_page :: "card list" where
  "unpriced_page = [demo_card ''Camera A'' ''$30.00'' ''Pre-Owned'',
                    demo_card ''Widget'' [] ''New'',
                    demo_card ''Camera B'' ''$10.00'' ''Brand New'']"

definition demo_item :: "string \<Rightarrow> price_field option \<Rightarrow> string option \<Rightarrow> string option \<Rightarrow> raw_item" where
  "demo_item t p th l =
     \<lparr>it_title = Some t, it_price = p, it_thumbnail = th, it_link = l, it_sold_at = None,
      it_shipping = Some (ShippingText ''Free delivery''), it_condition = Some ''Pre-Owned''\<rparr>"

definition http_ok :: "raw_item list \<Rightarrow> http_response" where
  "http_ok its = \<lparr>ok = True, status = 200, json = Inr (Some \<lparr>organic_results = Some its\<rparr>)\<rparr>"

text \<open>Provider results: one complete item and one without a thumbnail; and one item without a
  price field.\<close>

definition serp_items :: "raw_item list" where
  "serp_items = [demo_item ''Lens A'' (Some \<lparr>raw = Some ''$10.00''\<rparr>) (Some ''http://img/a'') (Some ''http://item/a''),
                 demo_item ''Lens B'' (Some \<lparr>raw = Some ''$5.00''\<rparr>) None (Some ''http://item/b''),
                 demo_item ''Lens C'' (Some \<lparr>raw = Some ''$20.00''\<rparr>) (Some ''http://img/c'') None]"

definition priceless_items :: "raw_item list" where
  "priceless_items = [demo_item ''Lens A'' None (Some ''http://img/a'') (Some ''http://item/a'')]"

text \<open>An environment whose primary provider returns the page of five cards and whose fallback
  provider answers with the three results; and variants of it.\<close>

definition demo_env :: env where
  "demo_env = \<lparr>now_start = 1000, now_store = 2000, now_iso = ''2025-01-01T00:00:00.000Z'',
                BEE_KEY = Some ''bee'', SERP_KEY = Some ''serp'',
                bee_get = (\<lambda>k u. Inr demo_page),
                serp_fetch = (\<lambda>u. Inr (http_ok serp_items)),
                parseCurrency = demo_parse, number_toString = demo_toString\<rparr>"

definition short_env :: env where
  "short_env = demo_env\<lparr>bee_get := (\<lambda>k u. Inr short_page)\<rparr>"

definition unpriced_env :: env where
  "unpriced_env = demo_env\<lparr>bee_get := (\<lambda>k u. Inr unpriced_page)\<rparr>"

definition failing_env :: env where
  "failing_env = short_env\<lparr>serp_fetch := (\<lambda>u. Inr \<lparr>ok = False, status = 503, json = Inr None\<rparr>)\<rparr>"

definition priceless_env :: env where
  "priceless_env = short_env\<lparr>serp_fetch := (\<lambda>u. Inr (http_ok priceless_items))\<rparr>"

definition later_env :: env where
  "later_env = demo_env\<lparr>now_start := 3000, now_store := 4000\<rparr>"

definition demo_event :: event where
  "demo_event = \<lparr>ev_q = Some ''canon camera'', httpMethod = ''GET''\<rparr>"

definition expired_env :: env where
  "expired_env = demo_env\<lparr>now_start := 3602000, now_store := 3603000\<rparr>"


text \<open>The cache after one request served from the page of five cards at time 2000.\<close>

definition warm_cache :: cache where
  "warm_cache = fst (snd (handler demo_env initial_cache demo_event))"

text \<open>The listings the fallback client makes of the three provider results.\<close>

definition lens_a :: listing where
  "lens_a = \<lparr>title = ''Lens A'', price = Some 10, currency = Some ''USD'',
             soldDate = Some ''2025-01-01T00:00:00.000Z'', condition = Some ''Pre-Owned'',
             imageUrl = Some ''http://img/a'', itemUrl = Some ''http://item/a'', shipping = Some ''0''\<rparr>"

definition lens_b :: listing where
  "lens_b = \<lparr>title = ''Lens B'', price = Some 5, currency = Some ''USD'',
             soldDate = Some ''2025-01-01T00:00:00.000Z'', condition = Some ''Pre-Owned'',
             imageUrl = Some [], itemUrl = Some ''http://item/b'', shipping = Some ''0''\<rparr>"

definition lens_c :: listing where
  "lens_c = \<lparr>title = ''Lens C'', price = Some 20, currency = Some ''USD'',
             soldDate = Some ''2025-01-01T00:00:00.000Z'', condition = Some ''Pre-Owned'',
             imageUrl = Some ''http://img/c'', itemUrl = Some [], shipping = Some ''0''\<rparr>"

section \<open>Properties of the stats calculator\<close>

lemma js_sort_defined: "js_sort (map Some xs) = map Some (sort xs)"
proof -
  have a: "List.map_filter id (map Some xs) = xs"
    by (induction xs) (simp_all add: List.map_filter_simps)
  have b: "filter (\<lambda>x. x = None) (map Some xs) = []"
    by (induction xs) simp_all
  show ?thesis by (simp add: js_sort_def a b)
qed

lemma js_index_defined:
  "js_index (map Some ys) i = (if 0 \<le> i \<and> i < int (length ys) then Some (ys ! nat i) else None)"
proof (cases "0 \<le> i \<and> i < int (length ys)")
  case True
  then have "nat i < length ys" by linarith
  with True show ?thesis by (simp add: js_index_def)
next
  case False
  then show ?thesis by (auto simp: js_index_def)
qed

lemma floor_pos_bounds:
  fixes q :: rat
  assumes "0 < n" "0 \<le> q" "q \<le> 1"
  shows "0 \<le> \<lfloor>(of_nat n - 1) * q\<rfloor> \<and> \<lfloor>(of_nat n - 1) * q\<rfloor> < int n"
proof -
  have n1: "(0::rat) \<le> of_nat n - 1" using assms(1) by simp
  have lo: "0 \<le> (of_nat n - 1) * q" using n1 assms(2) by simp
  have "(of_nat n - 1) * q \<le> (of_nat n - 1) * 1"
    using n1 assms(3) by (rule mult_left_mono[rotated])
  then have hi: "(of_nat n - 1) * q < of_nat n" by simp
  have "\<lfloor>(of_nat n - 1) * q\<rfloor> < int n"
    using hi by (simp add: floor_less_iff)
  moreover have "0 \<le> \<lfloor>(of_nat n - 1) * q\<rfloor>" using lo by simp
  ultimately show ?thesis by simp
qed

lemma quantile_defined:
  assumes "xs \<noteq> []" "0 \<le> q" "q \<le> 1"
  shows "quantile (map Some xs) q = Num (r7_quantile xs q)"
proof -
  let ?n = "length xs"
  let ?b = "\<lfloor>(of_nat ?n - 1) * q\<rfloor>"
  have n: "0 < ?n" using assms(1) by simp
  have b: "0 \<le> ?b" "?b < int ?n" using floor_pos_bounds[OF n assms(2,3)] by simp_all
  have cast: "(of_int ?b :: rat) = of_nat (nat ?b)" using b(1) by simp
  have idx: "nat (?b + 1) = nat ?b + 1" using b(1) by linarith
  have nb: "nat ?b < ?n" using b by linarith
  have i0: "js_index (map Some (sort xs)) ?b = Some (sort xs ! nat ?b)"
    using b by (simp add: js_index_defined)
  show ?thesis
  proof (cases "?b + 1 < int ?n")
    case True
    then have lt: "nat ?b + 1 < ?n" using b(1) by linarith
    have i1: "js_index (map Some (sort xs)) (?b + 1) = Some (sort xs ! (nat ?b + 1))"
      using True b(1) by (simp add: js_index_defined idx del: of_nat_nat)
    have l: "quantile (map Some xs) q
             = Num (sort xs ! nat ?b + ((of_nat ?n - 1) * q - of_int ?b) * (sort xs ! (nat ?b + 1) - sort xs ! nat ?b))"
      unfolding quantile_def Let_def js_sort_defined length_map length_sort i0 i1 by simp
    have r: "r7_quantile xs q
             = sort xs ! nat ?b + ((of_nat ?n - 1) * q - of_nat (nat ?b)) * (sort xs ! (nat ?b + 1) - sort xs ! nat ?b)"
      unfolding r7_quantile_def Let_def using lt by simp
    show ?thesis unfolding l r cast by (rule refl)
  next
    case False
    then have nlt: "\<not> nat ?b + 1 < ?n" using b(1) by linarith
    have i1: "js_index (map Some (sort xs)) (?b + 1) = None"
      using False by (simp add: js_index_defined)
    have l: "quantile (map Some xs) q = Num (sort xs ! nat ?b)"
      unfolding quantile_def Let_def js_sort_defined length_map length_sort i0 i1 by simp
    have r: "r7_quantile xs q = sort xs ! nat ?b"
      unfolding r7_quantile_def Let_def using nlt by simp
    show ?thesis unfolding l r by (rule refl)
  qed
qed

text \<open>
  Claim C4. For the empty listing sequence the stats calculator returns \<open>count = 0\<close> and the
  value \<^verbatim>\<open>undefined\<close>, not a number, for each of \<open>p25\<close>, \<open>median\<close> and \<open>p75\<close>: with no
  element, \<open>pos\<close> is negative, \<open>base\<close> is \<open>-1\<close>, and both \<^verbatim>\<open>sorted[0]\<close> and \<^verbatim>\<open>sorted[-1]\<close>
  read \<^verbatim>\<open>undefined\<close>.
\<close>

theorem stats_empty:
  "calculateSalesMetrics [] = \<lparr>count = 0, p25 = Undefined, median = Undefined, p75 = Undefined\<rparr>"
  by code_simp

text \<open>
  Claim C3. The quantile function is the linear-interpolation (R-7) estimator: on every
  non-empty list of numbers and every \<open>q\<close> between 0 and 1 it agrees with the estimator as the
  specification words it; for the prices 1, 2, 3, 4 it returns 1.75, 2.5 and 3.25 at the three
  quartiles, and for the single price 5 it returns 5 at each. All values met in these runs are
  multiples of 1/4 of small size, on which the arithmetic of IEEE doubles is exact and equals
  the rational arithmetic used here.
\<close>

theorem quantile_linear_interpolation:
  "(xs \<noteq> [] \<and> 0 \<le> q \<and> q \<le> 1 \<longrightarrow> quantile (map Some xs) q = Num (r7_quantile xs q))
   \<and> quantile [Some 1, Some 2, Some 3, Some 4] (1 / 4) = Num (7 / 4)
   \<and> quantile [Some 1, Some 2, Some 3, Some 4] (1 / 2) = Num (5 / 2)
   \<and> quantile [Some 1, Some 2, Some 3, Some 4] (3 / 4) = Num (13 / 4)
   \<and> quantile [Some 5] (1 / 4) = Num 5
   \<and> quantile [Some 5] (1 / 2) = Num 5
   \<and> quantile [Some 5] (3 / 4) = Num 5"
proof -
  have a: "quantile [Some 1, Some 2, Some 3, Some 4] (1 / 4) = Num (7 / 4)" by code_simp
  have b: "quantile [Some 1, Some 2, Some 3, Some 4] (1 / 2) = Num (5 / 2)" by code_simp
  have c: "quantile [Some 1, Some 2, Some 3, Some 4] (3 / 4) = Num (13 / 4)" by code_simp
  have d: "quantile [Some 5] (1 / 4) = Num 5" by code_simp
  have e: "quantile [Some 5] (1 / 2) = Num 5" by code_simp
  have f: "quantile [Some 5] (3 / 4) = Num 5" by code_simp
  show ?thesis using quantile_defined a b c d e f by blast
qed

text \<open>The refinement at an unsorted list of four prices and the upper quartile.\<close>

theorem quantile_linear_interpolation_witness:
  "[4, 1, 3, 2 :: rat] \<noteq> [] \<and> (0::rat) \<le> 3 / 4 \<and> (3 / 4 :: rat) \<le> 1
   \<and> quantile (map Some [4, 1, 3, 2]) (3 / 4) = Num (r7_quantile [4, 1, 3, 2] (3 / 4))
   \<and> r7_quantile [4, 1, 3, 2] (3 / 4) = 13 / 4"
proof -
  have "r7_quantile [4, 1, 3, 2] (3 / 4) = 13 / 4" by code_simp
  then show ?thesis
    using quantile_linear_interpolation [of "[4, 1, 3, 2]" "3 / 4"] by simp
qed


section \<open>Properties of the HTML extractor\<close>

lemma foldl_extract_card:
  "foldl (extract_card e) acc cards
   = acc @ map (\<lambda>c. \<lparr>title = card_title c, price = map_option pvalue (parsePrice e (card_price c)),
                        currency = None, soldDate = None, condition = None, imageUrl = None,
                        itemUrl = None, shipping = None\<rparr>)
               (filter (\<lambda>c. card_title c \<noteq> ''Shop on eBay'' \<and> card_condition c \<noteq> []) cards)"
proof (induction cards arbitrary: acc)
  case Nil
  show ?case by simp
next
  case (Cons c cards)
  show ?case
    unfolding foldl_Cons Cons.IH
    by (simp add: extract_card_def Let_def)
qed

text \<open>
  Claim C7. The listings the extractor emits are exactly the images, in the order of the input
  markup, of the cards whose title is not the sponsored placeholder \<^verbatim>\<open>Shop on eBay\<close> and whose
  condition is not empty: a placeholder card is never emitted whatever its other fields are, a
  card without a condition is never emitted, and the order of the cards is kept.
\<close>

theorem extractor_filter_and_order:
  "extractSellItemsFromHTML e cards q
   = map (\<lambda>c. \<lparr>title = card_title c, price = map_option pvalue (parsePrice e (card_price c)),
                 currency = None, soldDate = None, condition = None, imageUrl = None,
                 itemUrl = None, shipping = None\<rparr>)
         (filter (\<lambda>c. card_title c \<noteq> ''Shop on eBay'' \<and> card_condition c \<noteq> []) cards)"
  unfolding extractSellItemsFromHTML_def foldl_extract_card by simp

text \<open>On the page of five cards the placeholder and the card without a condition are dropped and
  the other three come out in page order.\<close>

theorem extractor_filter_and_order_witness:
  "map title (extractSellItemsFromHTML demo_env demo_page ''canon camera'')
   = [''Camera A'', ''Camera B'', ''Camera D'']"
  using extractor_filter_and_order [of demo_env demo_page "''canon camera''"]
  by (simp add: demo_page_def demo_card_def)

lemma primary_fields:
  "l \<in> set (extractSellItemsFromHTML e cards q) \<Longrightarrow>
   currency l = None \<and> soldDate l = None \<and> condition l = None \<and> imageUrl l = None
   \<and> itemUrl l = None \<and> shipping l = None"
  unfolding extractSellItemsFromHTML_def foldl_extract_card by auto

text \<open>
  Claim C5. Every listing exposed downstream should have a numeric price. The filter of the
  extractor tests the title and the condition only, so a card whose price text is empty, for
  which \<^verbatim>\<open>parsePrice\<close> returns \<^verbatim>\<open>null\<close>, is emitted with the price \<^verbatim>\<open>undefined\<close>; on a page
  of three cards it reaches the response, under the primary tag and counted in the statistics.
\<close>

theorem unpriced_card_emitted:
  "map (\<lambda>l. (title l, price l)) (extractSellItemsFromHTML unpriced_env unpriced_page ''canon camera'')
   = [(''Camera A'', Some 30), (''Widget'', None), (''Camera B'', Some 10)]
   \<and> response_source (fst (handler unpriced_env initial_cache demo_event)) = Some ''scrapingbee''
   \<and> map price (response_items (fst (handler unpriced_env initial_cache demo_event)))
     = [Some 30, None, Some 10]
   \<and> calculateSalesMetrics (response_items (fst (handler unpriced_env initial_cache demo_event)))
     = \<lparr>count = 3, p25 = Num 20, median = Num 30, p75 = Num 30\<rparr>"
  by code_simp

section \<open>The cache slot across invocations\<close>

lemma handler_try_cache:
  assumes "handler_try e c ev = (res, c', calls)"
  shows "c' = c \<or> (\<exists>q st items src. ev_q ev = Some q \<and> q \<noteq> [] \<and> js_trim q \<noteq> []
            \<and> c' = cache_store e q st items src
            \<and> (src = ''scrapingbee'' \<longrightarrow> (\<exists>cards. items = extractSellItemsFromHTML e cards q)))"
  using assms
  by (auto simp: handler_try_def Let_def split: option.splits if_splits sum.splits prod.splits)

lemma handler_cache:
  assumes "handler e c ev = (r, c', calls)"
  shows "c' = c \<or> (\<exists>q st items src. ev_q ev = Some q \<and> q \<noteq> [] \<and> js_trim q \<noteq> []
            \<and> c' = cache_store e q st items src
            \<and> (src = ''scrapingbee'' \<longrightarrow> (\<exists>cards. items = extractSellItemsFromHTML e cards q)))"
proof -
  obtain res c1 calls1 where t: "handler_try e c ev = (res, c1, calls1)"
    by (cases "handler_try e c ev") auto
  have "c' = c1" using assms t by (cases res) (simp_all add: handler_def)
  with handler_try_cache [OF t] show ?thesis by simp
qed

lemma reachable_inv:
  assumes "reachable c" "data c = Some d"
  shows "payload_cached d \<and> 0 < timestamp c \<and> query c \<noteq> [] \<and> js_trim (query c) \<noteq> []
         \<and> payload_query d = query c
         \<and> (payload_source d = ''scrapingbee'' \<longrightarrow>
              (\<exists>e cards q. payload_items d = extractSellItemsFromHTML e cards q))"
  using assms
proof (induction arbitrary: d rule: reachable.induct)
  case reachable_init
  then show ?case by (simp add: initial_cache_def)
next
  case (reachable_step c e ev r c' calls)
  from handler_cache [OF reachable_step.hyps(4)]
  show ?case
  proof
    assume "c' = c"
    with reachable_step.IH reachable_step.prems show ?thesis by simp
  next
    assume "\<exists>q st items src. ev_q ev = Some q \<and> q \<noteq> [] \<and> js_trim q \<noteq> []
            \<and> c' = cache_store e q st items src
            \<and> (src = ''scrapingbee'' \<longrightarrow> (\<exists>cards. items = extractSellItemsFromHTML e cards q))"
    then obtain q st items src where
      q: "q \<noteq> []" "js_trim q \<noteq> []" and c': "c' = cache_store e q st items src"
      and src: "src = ''scrapingbee'' \<longrightarrow> (\<exists>cards. items = extractSellItemsFromHTML e cards q)"
      by blast
    have d: "d = \<lparr>payload_query = q, payload_stats = st, payload_items = items,
                   payload_source = src, payload_cached = True\<rparr>"
      using reachable_step.prems c' by (simp add: cache_store_def)
    show ?thesis
      using q src reachable_step.hyps(3) unfolding c' d
      by (auto simp: cache_store_def)
  qed
qed

lemma cache_lookup_Some: "cache_lookup e c q = Some d \<Longrightarrow> data c = Some d \<and> query c = q"
  by (auto simp: cache_lookup_def Let_def split: option.splits if_splits)

lemma handler_payload:
  assumes "handler e c ev = (r, c', calls)" "body r = JsonPayload d"
  shows "data c = Some d \<or> payload_source d = ''serpapi''
         \<or> (\<exists>cards q. payload_items d = extractSellItemsFromHTML e cards q)"
  using assms
  by (auto simp: handler_def handler_try_def fresh_response_def Let_def
           dest: cache_lookup_Some
           split: option.splits if_splits sum.splits prod.splits; blast)

text \<open>
  Claim C10. Every listing emitted by primary extraction has only a title and a price:
  \<open>currency\<close>, \<open>soldDate\<close>, \<open>condition\<close>, \<open>imageUrl\<close>, \<open>itemUrl\<close> and \<open>shipping\<close> are absent,
  the condition label and the shipping text read from the card being discarded. The same holds
  for the items of every response whose source is the primary tag, fresh or served from the
  cache.
\<close>

theorem primary_listing_only_title_price:
  "(\<forall>l\<in>set (extractSellItemsFromHTML e cards q).
      currency l = None \<and> soldDate l = None \<and> condition l = None \<and> imageUrl l = None
      \<and> itemUrl l = None \<and> shipping l = None)
   \<and> (reachable c \<and> response_source (fst (handler e c ev)) = Some ''scrapingbee'' \<longrightarrow>
        (\<forall>l\<in>set (response_items (fst (handler e c ev))).
           currency l = None \<and> soldDate l = None \<and> condition l = None \<and> imageUrl l = None
           \<and> itemUrl l = None \<and> shipping l = None))"
proof (rule conjI)
  show "\<forall>l\<in>set (extractSellItemsFromHTML e cards q).
      currency l = None \<and> soldDate l = None \<and> condition l = None \<and> imageUrl l = None
      \<and> itemUrl l = None \<and> shipping l = None"
    using primary_fields by blast
next
  show "reachable c \<and> response_source (fst (handler e c ev)) = Some ''scrapingbee'' \<longrightarrow>
        (\<forall>l\<in>set (response_items (fst (handler e c ev))).
           currency l = None \<and> soldDate l = None \<and> condition l = None \<and> imageUrl l = None
           \<and> itemUrl l = None \<and> shipping l = None)"
  proof (intro impI ballI)
    fix l
    assume a: "reachable c \<and> response_source (fst (handler e c ev)) = Some ''scrapingbee''"
      and l: "l \<in> set (response_items (fst (handler e c ev)))"
    obtain r c' calls where h: "handler e c ev = (r, c', calls)"
      by (cases "handler e c ev") auto
    from a h obtain d where d: "body r = JsonPayload d" "payload_source d = ''scrapingbee''"
      by (auto simp: response_source_def split: body.splits)
    from l h d have li: "l \<in> set (payload_items d)" by (simp add: response_items_def)
    have "\<exists>e' cards' q'. payload_items d = extractSellItemsFromHTML e' cards' q'"
      using handler_payload [OF h d(1)] d(2) reachable_inv [of c d] a by auto
    then obtain e' cards' q' where "payload_items d = extractSellItemsFromHTML e' cards' q'"
      by blast
    with li show "currency l = None \<and> soldDate l = None \<and> condition l = None \<and> imageUrl l = None
               \<and> itemUrl l = None \<and> shipping l = None"
      using primary_fields by metis
  qed
qed

text \<open>The three listings of the page of five cards, extracted and then served from the cache.\<close>

theorem primary_listing_only_title_price_witness:
  "extractSellItemsFromHTML demo_env demo_page ''canon camera'' \<noteq> []
   \<and> list_all (\<lambda>l. currency l = None \<and> soldDate l = None \<and> condition l = None
                    \<and> imageUrl l = None \<and> itemUrl l = None \<and> shipping l = None)
        (extractSellItemsFromHTML demo_env demo_page ''canon camera'')
   \<and> reachable warm_cache
   \<and> response_source (fst (handler later_env warm_cache demo_event)) = Some ''scrapingbee''
   \<and> response_items (fst (handler later_env warm_cache demo_event)) \<noteq> []
   \<and> list_all (\<lambda>l. currency l = None \<and> soldDate l = None \<and> condition l = None
                    \<and> imageUrl l = None \<and> itemUrl l = None \<and> shipping l = None)
        (response_items (fst (handler later_env warm_cache demo_event)))"
proof -
  have a: "extractSellItemsFromHTML demo_env demo_page ''canon camera'' \<noteq> []" by code_simp
  have s: "(0::int) < now_start demo_env" "(0::int) < now_store demo_env"
    by (simp_all add: demo_env_def)
  have r: "reachable warm_cache"
    unfolding warm_cache_def
    by (rule reachable_step [OF reachable_init s, of demo_event "fst (handler demo_env initial_cache demo_event)" _ "snd (snd (handler demo_env initial_cache demo_event))"]) simp
  have b: "response_source (fst (handler later_env warm_cache demo_event)) = Some ''scrapingbee''"
    by code_simp
  have c: "response_items (fst (handler later_env warm_cache demo_event)) \<noteq> []"
    by code_simp
  show ?thesis
    unfolding list_all_iff
    using a r b c
      primary_listing_only_title_price [of later_env demo_page "''canon camera''" warm_cache demo_event]
      primary_listing_only_title_price [of demo_env demo_page "''canon camera''" warm_cache demo_event]
    by blast
qed

section \<open>Properties of the fallback client\<close>

lemma retained_iff:
  "retained x = (title x \<noteq> [] \<and> itemUrl x \<noteq> None \<and> itemUrl x \<noteq> Some []
                 \<and> (\<exists>v. price x = Some v \<and> 0 < v))"
  by (cases "price x") (auto simp: retained_def)

lemma map_items_list_all2:
  "map_items e its = Inr mapped \<Longrightarrow> list_all2 (\<lambda>it y. map_item e it = Inr y) its mapped"
proof (induction its arbitrary: mapped)
  case Nil
  then show ?case by simp
next
  case (Cons it its)
  from Cons.prems obtain y ys where
    y: "map_item e it = Inr y" and ys: "map_items e its = Inr ys" and m: "mapped = y # ys"
    by (auto split: sum.splits)
  from Cons.IH [OF ys] y show ?case unfolding m by simp
qed

lemma fetchSerp_Some_exact:
  assumes "fetchSerp e q = (Inr (Some items), calls)"
  shows "\<exists>k r j mapped. SERP_KEY e = Some k \<and> k \<noteq> [] \<and> serp_fetch e (serp_params q k) = Inr r
           \<and> ok r \<and> json r = Inr j \<and> map_items e (organic_list j) = Inr mapped
           \<and> items = filter retained mapped \<and> calls = [SerpHttp (serp_params q k)]"
  using assms
  by (auto simp: fetchSerp_def organic_list_def Let_def split: option.splits if_splits sum.splits)

lemma map_item_urls:
  "map_item e it = Inr y \<Longrightarrow>
   imageUrl y = Some (case it_thumbnail it of None \<Rightarrow> [] | Some s \<Rightarrow> s)
   \<and> itemUrl y = Some (case it_link it of None \<Rightarrow> [] | Some s \<Rightarrow> s)"
  by (auto simp: map_item_def Let_def split: option.splits sum.splits)

text \<open>
  Claim C6, as stated, fails: the filter of line 301 tests the title, the item URL and the
  price, not the image URL. The second provider result has no thumbnail; its listing is
  retained with the empty image URL.
\<close>

theorem fallback_retained_counterexample:
  "it_thumbnail (serp_items ! 1) = None
   \<and> fst (fetchSerp demo_env ''lens'') = Inr (Some [lens_a, lens_b])
   \<and> imageUrl lens_b = Some []"
  by code_simp

text \<open>
  Claim C6, amended. The result of the fallback client is exactly the list, in the provider's
  order, of the mapped provider items that have a non-empty title, a non-empty \<open>itemUrl\<close> and
  a strictly positive price. So every retained listing has these three, and an item whose link
  is missing or empty is excluded from the result even if present in the raw provider response.
  \<open>imageUrl\<close> is always present as a field, holding the provider's thumbnail or the empty
  string, and is not tested: an item without a thumbnail that passes the three tests is
  retained, with the empty \<open>imageUrl\<close>.
\<close>

theorem fallback_retained:
  assumes "fetchSerp e q = (Inr (Some items), calls)"
  shows "(\<exists>k r j mapped.
            SERP_KEY e = Some k \<and> serp_fetch e (serp_params q k) = Inr r \<and> ok r \<and> json r = Inr j
            \<and> list_all2 (\<lambda>it y. map_item e it = Inr y) (organic_list j) mapped
            \<and> items = filter (\<lambda>x. title x \<noteq> [] \<and> itemUrl x \<noteq> None \<and> itemUrl x \<noteq> Some []
                                    \<and> (\<exists>v. price x = Some v \<and> 0 < v)) mapped)
         \<and> (\<forall>x\<in>set items. title x \<noteq> [] \<and> itemUrl x \<noteq> None \<and> itemUrl x \<noteq> Some []
                          \<and> (\<exists>v. price x = Some v \<and> 0 < v)
                          \<and> imageUrl x \<noteq> None)
         \<and> (map_item e it = Inr y \<longrightarrow>
               imageUrl y = Some (case it_thumbnail it of None \<Rightarrow> [] | Some s \<Rightarrow> s)
               \<and> itemUrl y = Some (case it_link it of None \<Rightarrow> [] | Some s \<Rightarrow> s))
         \<and> (map_item e it = Inr y \<and> (it_link it = None \<or> it_link it = Some []) \<longrightarrow> y \<notin> set items)"
proof -
  from fetchSerp_Some_exact [OF assms] obtain k r j mapped where
    k: "SERP_KEY e = Some k" and r: "serp_fetch e (serp_params q k) = Inr r" "ok r" "json r = Inr j"
    and m: "map_items e (organic_list j) = Inr mapped" and i: "items = filter retained mapped"
    by blast
  have l: "list_all2 (\<lambda>it y. map_item e it = Inr y) (organic_list j) mapped"
    using m by (rule map_items_list_all2)
  have f: "items = filter (\<lambda>x. title x \<noteq> [] \<and> itemUrl x \<noteq> None \<and> itemUrl x \<noteq> Some []
                                \<and> (\<exists>v. price x = Some v \<and> 0 < v)) mapped"
    unfolding i by (rule filter_cong [OF refl]) (simp add: retained_iff)
  have 1: "\<exists>k r j mapped.
            SERP_KEY e = Some k \<and> serp_fetch e (serp_params q k) = Inr r \<and> ok r \<and> json r = Inr j
            \<and> list_all2 (\<lambda>it y. map_item e it = Inr y) (organic_list j) mapped
            \<and> items = filter (\<lambda>x. title x \<noteq> [] \<and> itemUrl x \<noteq> None \<and> itemUrl x \<noteq> Some []
                                    \<and> (\<exists>v. price x = Some v \<and> 0 < v)) mapped"
    using k r l f by blast
  have img: "imageUrl x \<noteq> None" if "x \<in> set mapped" for x
  proof -
    from that l obtain it0 where "map_item e it0 = Inr x"
      by (auto simp: in_set_conv_nth list_all2_conv_all_nth)
    from map_item_urls [OF this] show ?thesis by simp
  qed
  have 2: "\<forall>x\<in>set items. title x \<noteq> [] \<and> itemUrl x \<noteq> None \<and> itemUrl x \<noteq> Some []
                          \<and> (\<exists>v. price x = Some v \<and> 0 < v) \<and> imageUrl x \<noteq> None"
    using img unfolding f by simp
  have 3: "map_item e it = Inr y \<longrightarrow>
               imageUrl y = Some (case it_thumbnail it of None \<Rightarrow> [] | Some s \<Rightarrow> s)
               \<and> itemUrl y = Some (case it_link it of None \<Rightarrow> [] | Some s \<Rightarrow> s)"
    using map_item_urls [of e it y] by blast
  have 4: "map_item e it = Inr y \<and> (it_link it = None \<or> it_link it = Some []) \<longrightarrow> y \<notin> set items"
  proof
    assume a: "map_item e it = Inr y \<and> (it_link it = None \<or> it_link it = Some [])"
    with map_item_urls [of e it y] have "itemUrl y = Some []" by auto
    with 2 show "y \<notin> set items" by blast
  qed
  show ?thesis using 1 2 3 4 by blast
qed

text \<open>The three provider results: the one without a thumbnail is retained with the empty image
  URL, the one without a link is excluded, and the result is the filter of the three mapped
  items.\<close>

theorem fallback_retained_witness:
  "fetchSerp demo_env ''lens'' = (Inr (Some [lens_a, lens_b]), [SerpHttp (serp_params ''lens'' ''serp'')])
   \<and> (\<exists>mapped. list_all2 (\<lambda>it y. map_item demo_env it = Inr y) serp_items mapped
         \<and> [lens_a, lens_b]
           = filter (\<lambda>x. title x \<noteq> [] \<and> itemUrl x \<noteq> None \<and> itemUrl x \<noteq> Some []
                          \<and> (\<exists>v. price x = Some v \<and> 0 < v)) mapped)
   \<and> list_all (\<lambda>x. title x \<noteq> [] \<and> itemUrl x \<noteq> None \<and> itemUrl x \<noteq> Some []
                    \<and> (\<exists>v. price x = Some v \<and> 0 < v) \<and> imageUrl x \<noteq> None) [lens_a, lens_b]
   \<and> it_thumbnail (serp_items ! 1) = None
   \<and> map_item demo_env (serp_items ! 1) = Inr lens_b
   \<and> imageUrl lens_b = Some []
   \<and> lens_b \<in> set [lens_a, lens_b]
   \<and> it_link (serp_items ! 2) = None
   \<and> map_item demo_env (serp_items ! 2) = Inr lens_c
   \<and> itemUrl lens_c = Some []
   \<and> lens_c \<notin> set [lens_a, lens_b]"
proof -
  have a: "fetchSerp demo_env ''lens'' = (Inr (Some [lens_a, lens_b]), [SerpHttp (serp_params ''lens'' ''serp'')])"
    by code_simp
  have k: "SERP_KEY demo_env = Some ''serp''" by (simp add: demo_env_def)
  have r: "serp_fetch demo_env (serp_params ''lens'' ''serp'') = Inr (http_ok serp_items)"
    by (simp add: demo_env_def)
  have j: "json (http_ok serp_items) = Inr (Some \<lparr>organic_results = Some serp_items\<rparr>)"
    by (simp add: http_ok_def)
  have o: "organic_list (Some \<lparr>organic_results = Some serp_items\<rparr>) = serp_items"
    by (simp add: organic_list_def)
  have b: "map_item demo_env (serp_items ! 1) = Inr lens_b" by code_simp
  have c: "map_item demo_env (serp_items ! 2) = Inr lens_c" by code_simp
  have tb: "it_thumbnail (serp_items ! 1) = None" by code_simp
  have lc: "it_link (serp_items ! 2) = None" by code_simp
  note t1 = fallback_retained [OF a, of "serp_items ! 1" lens_b]
  note t2 = fallback_retained [OF a, of "serp_items ! 2" lens_c]
  from t1 k r j o have ex: "\<exists>mapped. list_all2 (\<lambda>it y. map_item demo_env it = Inr y) serp_items mapped
         \<and> [lens_a, lens_b]
           = filter (\<lambda>x. title x \<noteq> [] \<and> itemUrl x \<noteq> None \<and> itemUrl x \<noteq> Some []
                          \<and> (\<exists>v. price x = Some v \<and> 0 < v)) mapped"
    by auto
  from t1 b tb have ib: "imageUrl lens_b = Some []" by simp
  from t2 c lc have uc: "itemUrl lens_c = Some []" by simp
  from t2 c lc have nc: "lens_c \<notin> set [lens_a, lens_b]" by blast
  from t1 have all: "list_all (\<lambda>x. title x \<noteq> [] \<and> itemUrl x \<noteq> None \<and> itemUrl x \<noteq> Some []
                    \<and> (\<exists>v. price x = Some v \<and> 0 < v) \<and> imageUrl x \<noteq> None) [lens_a, lens_b]"
    unfolding list_all_iff by blast
  have mb: "lens_b \<in> set [lens_a, lens_b]" by simp
  show ?thesis using a ex all tb b ib mb lc c uc nc by blast
qed

lemma map_items_throws:
  "it \<in> set its \<Longrightarrow> it_price it = None \<Longrightarrow> \<exists>err. map_items e its = Inl err"
proof (induction its)
  case Nil
  then show ?case by simp
next
  case (Cons a its)
  show ?case
  proof (cases "map_item e a")
    case (Inl err)
    then show ?thesis by simp
  next
    case (Inr x)
    then have "a \<noteq> it" using Cons.prems(2) by (auto simp: map_item_def)
    with Cons.prems have "it \<in> set its" by simp
    from Cons.IH [OF this Cons.prems(2)] obtain err where "map_items e its = Inl err" by blast
    with Inr show ?thesis by simp
  qed
qed

text \<open>
  Claim C9. When the response of the fallback provider contains an organic result without a
  price field, the mapping throws on reading \<^verbatim>\<open>raw\<close> of the absent price, it neither skips the
  item nor defaults its price to 0, and the request ends on the internal-error path with the
  cache untouched. This holds for every such response, so in particular for some.
\<close>

theorem missing_price_throws:
  assumes "ev_q ev = Some q" "q \<noteq> []" "js_trim q \<noteq> []" "cache_lookup e c q = None"
    "httpMethod ev \<noteq> ''OPTIONS''"
    "bee_get e (bee_key e) (scrapURL q) = Inr rawHTML"
    "length (extractSellItemsFromHTML e rawHTML q) < 3"
    "SERP_KEY e = Some k" "k \<noteq> []"
    "serp_fetch e (serp_params q k) = Inr r" "ok r"
    "json r = Inr (Some \<lparr>organic_results = Some its\<rparr>)"
    "it \<in> set its" "it_price it = None"
  shows "map_item e it = Inl (TypeError ''raw'')
         \<and> (\<exists>err. fst (fetchSerp e q) = Inl err
                \<and> handler e c ev
                  = (\<lparr>statusCode = 500, headers = cors_headers,
                      body = JsonError ''Internal Server Error'' (Some err)\<rparr>, c,
                     [BeeGet (bee_key e) (scrapURL q), FetchSerp q, SerpHttp (serp_params q k)]))"
proof -
  have 1: "map_item e it = Inl (TypeError ''raw'')"
    using assms(14) by (simp add: map_item_def)
  obtain err where err: "map_items e its = Inl err"
    using map_items_throws [OF assms(13,14)] by blast
  have f: "fetchSerp e q = (Inl err, [SerpHttp (serp_params q k)])"
    using assms(8-12) err by (simp add: fetchSerp_def Let_def)
  have h: "handler_try e c ev
           = (Inl err, c, [BeeGet (bee_key e) (scrapURL q), FetchSerp q, SerpHttp (serp_params q k)])"
    using assms(1-7) f by (simp add: handler_try_def Let_def)
  have "handler e c ev
        = (\<lparr>statusCode = 500, headers = cors_headers,
            body = JsonError ''Internal Server Error'' (Some err)\<rparr>, c,
           [BeeGet (bee_key e) (scrapURL q), FetchSerp q, SerpHttp (serp_params q k)])"
    unfolding handler_def h by simp
  with 1 f show ?thesis by simp
qed

text \<open>A response whose only result has no price field.\<close>

theorem missing_price_throws_witness:
  "it_price (hd priceless_items) = None
   \<and> map_item priceless_env (hd priceless_items) = Inl (TypeError ''raw'')
   \<and> (\<exists>err. fst (fetchSerp priceless_env ''canon camera'') = Inl err
         \<and> handler priceless_env initial_cache demo_event
           = (\<lparr>statusCode = 500, headers = cors_headers,
               body = JsonError ''Internal Server Error'' (Some err)\<rparr>, initial_cache,
              [BeeGet (bee_key priceless_env) (scrapURL ''canon camera''), FetchSerp ''canon camera'',
               SerpHttp (serp_params ''canon camera'' ''serp'')]))"
proof -
  have 1: "ev_q demo_event = Some ''canon camera''" by (simp add: demo_event_def)
  have 2: "''canon camera'' \<noteq> []" by simp
  have 3: "js_trim ''canon camera'' \<noteq> []" by code_simp
  have 4: "cache_lookup priceless_env initial_cache ''canon camera'' = None" by code_simp
  have 5: "httpMethod demo_event \<noteq> ''OPTIONS''" by (simp add: demo_event_def)
  have 6: "bee_get priceless_env (bee_key priceless_env) (scrapURL ''canon camera'') = Inr short_page"
    by (simp add: priceless_env_def short_env_def demo_env_def)
  have 7: "length (extractSellItemsFromHTML priceless_env short_page ''canon camera'') < 3"
    by code_simp
  have 8: "SERP_KEY priceless_env = Some ''serp''"
    by (simp add: priceless_env_def short_env_def demo_env_def)
  have 9: "''serp'' \<noteq> []" by simp
  have 10: "serp_fetch priceless_env (serp_params ''canon camera'' ''serp'') = Inr (http_ok priceless_items)"
    by (simp add: priceless_env_def short_env_def demo_env_def)
  have 11: "ok (http_ok priceless_items)" by (simp add: http_ok_def)
  have 12: "json (http_ok priceless_items) = Inr (Some \<lparr>organic_results = Some priceless_items\<rparr>)"
    by (simp add: http_ok_def)
  have 13: "hd priceless_items \<in> set priceless_items" by (simp add: priceless_items_def)
  have 14: "it_price (hd priceless_items) = None" by (simp add: priceless_items_def demo_item_def)
  show ?thesis
    using 14 missing_price_throws [OF 1 2 3 4 5 6 7 8 9 10 11 12 13 14] by simp
qed

section \<open>Properties of the orchestrator\<close>




lemma demo_request:
  "ev_q demo_event = Some ''canon camera''" "''canon camera'' \<noteq> []" "js_trim ''canon camera'' \<noteq> []"
  "httpMethod demo_event \<noteq> ''OPTIONS''"
  by (simp add: demo_event_def, simp, code_simp, simp add: demo_event_def)


text \<open>
  Claim C1, as stated, fails: with two listings from primary extraction and a fallback
  provider that answers with status 503, the fallback client is called and throws, and the
  response is the internal-error response, which has no \<open>source\<close> field.
\<close>

theorem branch_selection_counterexample:
  "bee_get failing_env (bee_key failing_env) (scrapURL ''canon camera'') = Inr short_page
   \<and> length (extractSellItemsFromHTML failing_env short_page ''canon camera'') = 2
   \<and> handler failing_env initial_cache demo_event
     = (\<lparr>statusCode = 500, headers = cors_headers,
         body = JsonError ''Internal Server Error'' (Some (SerpAPIError 503))\<rparr>, initial_cache,
        [BeeGet ''bee'' (scrapURL ''canon camera''), FetchSerp ''canon camera'',
         SerpHttp (serp_params ''canon camera'' ''serp'')])
   \<and> response_source (fst (handler failing_env initial_cache demo_event)) = None"
  by code_simp

text \<open>
  Claim C1, amended. For every request whose primary extraction yields fewer than 3 listings
  (zero included) the orchestrator calls the fallback client; when that call returns, the
  response's source is the fallback tag and its items are the fallback's (none when it returns
  \<^verbatim>\<open>null\<close>); when it throws, the response is the internal-error response, without a source.
  For every request whose primary extraction yields 3 or more listings the only upstream call
  is the primary one, the fallback client is not invoked, and the response's source is the
  primary tag.
\<close>

theorem branch_selection:
  assumes "ev_q ev = Some q" "q \<noteq> []" "js_trim q \<noteq> []" "cache_lookup e c q = None"
    "httpMethod ev \<noteq> ''OPTIONS''" "bee_get e (bee_key e) (scrapURL q) = Inr rawHTML"
  shows "(length (extractSellItemsFromHTML e rawHTML q) < 3 \<longrightarrow>
            snd (snd (handler e c ev))
              = BeeGet (bee_key e) (scrapURL q) # FetchSerp q # snd (fetchSerp e q)
            \<and> (case fst (fetchSerp e q) of
                 Inr r \<Rightarrow> response_source (fst (handler e c ev)) = Some ''serpapi''
                          \<and> response_items (fst (handler e c ev)) = (case r of None \<Rightarrow> [] | Some xs \<Rightarrow> xs)
               | Inl err \<Rightarrow> statusCode (fst (handler e c ev)) = 500
                            \<and> response_source (fst (handler e c ev)) = None))
         \<and> (3 \<le> length (extractSellItemsFromHTML e rawHTML q) \<longrightarrow>
            snd (snd (handler e c ev)) = [BeeGet (bee_key e) (scrapURL q)]
            \<and> response_source (fst (handler e c ev)) = Some ''scrapingbee''
            \<and> response_items (fst (handler e c ev)) = extractSellItemsFromHTML e rawHTML q)"
proof (rule conjI)
  show "length (extractSellItemsFromHTML e rawHTML q) < 3 \<longrightarrow>
            snd (snd (handler e c ev))
              = BeeGet (bee_key e) (scrapURL q) # FetchSerp q # snd (fetchSerp e q)
            \<and> (case fst (fetchSerp e q) of
                 Inr r \<Rightarrow> response_source (fst (handler e c ev)) = Some ''serpapi''
                          \<and> response_items (fst (handler e c ev)) = (case r of None \<Rightarrow> [] | Some xs \<Rightarrow> xs)
               | Inl err \<Rightarrow> statusCode (fst (handler e c ev)) = 500
                            \<and> response_source (fst (handler e c ev)) = None)"
  proof
    assume lt: "length (extractSellItemsFromHTML e rawHTML q) < 3"
    obtain res calls where f: "fetchSerp e q = (res, calls)" by (cases "fetchSerp e q") auto
    show "snd (snd (handler e c ev))
              = BeeGet (bee_key e) (scrapURL q) # FetchSerp q # snd (fetchSerp e q)
            \<and> (case fst (fetchSerp e q) of
                 Inr r \<Rightarrow> response_source (fst (handler e c ev)) = Some ''serpapi''
                          \<and> response_items (fst (handler e c ev)) = (case r of None \<Rightarrow> [] | Some xs \<Rightarrow> xs)
               | Inl err \<Rightarrow> statusCode (fst (handler e c ev)) = 500
                            \<and> response_source (fst (handler e c ev)) = None)"
    proof (cases res)
      case (Inl err)
      with assms lt f show ?thesis
        by (simp add: handler_def handler_try_def Let_def response_source_def)
    next
      case (Inr r)
      with assms lt f show ?thesis
        by (simp add: handler_def handler_try_def Let_def response_source_def response_items_def
                      fresh_response_def)
    qed
  qed
next
  show "3 \<le> length (extractSellItemsFromHTML e rawHTML q) \<longrightarrow>
            snd (snd (handler e c ev)) = [BeeGet (bee_key e) (scrapURL q)]
            \<and> response_source (fst (handler e c ev)) = Some ''scrapingbee''
            \<and> response_items (fst (handler e c ev)) = extractSellItemsFromHTML e rawHTML q"
    using assms
    by (simp add: handler_def handler_try_def Let_def response_source_def response_items_def
                  fresh_response_def)
qed

text \<open>A page of two listings, answered from the fallback, and a page of three, answered from
  the primary provider.\<close>

theorem branch_selection_witness:
  "length (extractSellItemsFromHTML short_env short_page ''canon camera'') < 3
   \<and> snd (snd (handler short_env initial_cache demo_event))
     = [BeeGet ''bee'' (scrapURL ''canon camera''), FetchSerp ''canon camera'',
        SerpHttp (serp_params ''canon camera'' ''serp'')]
   \<and> response_source (fst (handler short_env initial_cache demo_event)) = Some ''serpapi''
   \<and> response_items (fst (handler short_env initial_cache demo_event)) = [lens_a, lens_b]
   \<and> 3 \<le> length (extractSellItemsFromHTML demo_env demo_page ''canon camera'')
   \<and> snd (snd (handler demo_env initial_cache demo_event)) = [BeeGet ''bee'' (scrapURL ''canon camera'')]
   \<and> response_source (fst (handler demo_env initial_cache demo_event)) = Some ''scrapingbee''"
proof -
  have m1: "cache_lookup short_env initial_cache ''canon camera'' = None" by code_simp
  have m2: "cache_lookup demo_env initial_cache ''canon camera'' = None" by code_simp
  have b1: "bee_get short_env (bee_key short_env) (scrapURL ''canon camera'') = Inr short_page"
    by (simp add: short_env_def demo_env_def)
  have b2: "bee_get demo_env (bee_key demo_env) (scrapURL ''canon camera'') = Inr demo_page"
    by (simp add: demo_env_def)
  have k1: "bee_key short_env = ''bee''" by (simp add: short_env_def demo_env_def bee_key_def)
  have k2: "bee_key demo_env = ''bee''" by (simp add: demo_env_def bee_key_def)
  have l1: "length (extractSellItemsFromHTML short_env short_page ''canon camera'') < 3" by code_simp
  have l2: "3 \<le> length (extractSellItemsFromHTML demo_env demo_page ''canon camera'')" by code_simp
  have f: "fetchSerp short_env ''canon camera''
           = (Inr (Some [lens_a, lens_b]), [SerpHttp (serp_params ''canon camera'' ''serp'')])"
    by code_simp
  show ?thesis
    using l1 l2 f k1 k2
      branch_selection [OF demo_request(1,2,3) m1 demo_request(4) b1]
      branch_selection [OF demo_request(1,2,3) m2 demo_request(4) b2]
    by simp
qed

section \<open>Properties of the result cache\<close>

lemma reachable_warm_cache: "reachable warm_cache"
proof -
  have s: "(0::int) < now_start demo_env" "(0::int) < now_store demo_env"
    by (simp_all add: demo_env_def)
  show ?thesis
    unfolding warm_cache_def
    by (rule reachable_step [OF reachable_init s, of demo_event
          "fst (handler demo_env initial_cache demo_event)" _
          "snd (snd (handler demo_env initial_cache demo_event))"]) simp
qed

text \<open>
  Claim C2. In every cache state a process can reach, the lookup is a hit if and only if an
  entry is stored, its query equals the requested query string exactly, and the time elapsed
  since its timestamp is strictly less than 60 minutes. On a hit the handler returns the cached
  payload, which is marked \<open>cached = true\<close>, leaves the cache as it is and calls no upstream
  provider; on a miss of a valid request that is not a preflight, the primary provider is
  called.
\<close>

theorem cache_hit_iff:
  assumes "reachable c"
  shows "((\<exists>d. cache_lookup e c q = Some d)
            \<longleftrightarrow> (data c \<noteq> None \<and> query c = q \<and> now_start e - timestamp c < 60 * 60 * 1000))
         \<and> (\<forall>d. ev_q ev = Some q \<and> cache_lookup e c q = Some d \<longrightarrow>
               data c = Some d \<and> payload_cached d
               \<and> handler e c ev
                 = (\<lparr>statusCode = 200, headers = cors_headers, body = JsonPayload d\<rparr>, c, []))
         \<and> (ev_q ev = Some q \<and> q \<noteq> [] \<and> js_trim q \<noteq> [] \<and> httpMethod ev \<noteq> ''OPTIONS''
              \<and> cache_lookup e c q = None \<longrightarrow>
               (\<exists>calls. snd (snd (handler e c ev)) = BeeGet (bee_key e) (scrapURL q) # calls))"
proof (intro conjI)
  show "(\<exists>d. cache_lookup e c q = Some d)
            \<longleftrightarrow> (data c \<noteq> None \<and> query c = q \<and> now_start e - timestamp c < 60 * 60 * 1000)"
  proof (cases "data c")
    case None
    then show ?thesis by (simp add: cache_lookup_def)
  next
    case (Some d)
    with reachable_inv [OF assms Some] show ?thesis
      by (auto simp: cache_lookup_def CACHE_DURATION_def)
  qed
next
  show "\<forall>d. ev_q ev = Some q \<and> cache_lookup e c q = Some d \<longrightarrow>
               data c = Some d \<and> payload_cached d
               \<and> handler e c ev
                 = (\<lparr>statusCode = 200, headers = cors_headers, body = JsonPayload d\<rparr>, c, [])"
  proof (intro allI impI)
    fix d assume a: "ev_q ev = Some q \<and> cache_lookup e c q = Some d"
    then have d: "data c = Some d" "query c = q" using cache_lookup_Some by blast+
    from reachable_inv [OF assms d(1)] d(2)
    have inv: "payload_cached d" "q \<noteq> []" "js_trim q \<noteq> []" by simp_all
    have "handler e c ev
          = (\<lparr>statusCode = 200, headers = cors_headers, body = JsonPayload d\<rparr>, c, [])"
      using a inv by (simp add: handler_def handler_try_def)
    with d inv show "data c = Some d \<and> payload_cached d
               \<and> handler e c ev
                 = (\<lparr>statusCode = 200, headers = cors_headers, body = JsonPayload d\<rparr>, c, [])"
      by simp
  qed
next
  show "ev_q ev = Some q \<and> q \<noteq> [] \<and> js_trim q \<noteq> [] \<and> httpMethod ev \<noteq> ''OPTIONS''
              \<and> cache_lookup e c q = None \<longrightarrow>
               (\<exists>calls. snd (snd (handler e c ev)) = BeeGet (bee_key e) (scrapURL q) # calls)"
    by (auto simp: handler_def handler_try_def Let_def split: sum.splits prod.splits)
qed

text \<open>The cache written at time 2000: a hit at time 3000, and a miss exactly 60 minutes after
  the write.\<close>

theorem cache_hit_iff_witness:
  "reachable warm_cache \<and> data warm_cache \<noteq> None \<and> query warm_cache = ''canon camera''
   \<and> now_start later_env - timestamp warm_cache < 60 * 60 * 1000
   \<and> (\<exists>d. cache_lookup later_env warm_cache ''canon camera'' = Some d \<and> payload_cached d
          \<and> handler later_env warm_cache demo_event
            = (\<lparr>statusCode = 200, headers = cors_headers, body = JsonPayload d\<rparr>, warm_cache, []))
   \<and> now_start expired_env - timestamp warm_cache = 60 * 60 * 1000
   \<and> cache_lookup expired_env warm_cache ''canon camera'' = None
   \<and> (\<exists>calls. snd (snd (handler expired_env warm_cache demo_event))
                = BeeGet (bee_key expired_env) (scrapURL ''canon camera'') # calls)"
proof -
  have d: "data warm_cache \<noteq> None" by code_simp
  have q: "query warm_cache = ''canon camera''" by code_simp
  have t: "timestamp warm_cache = 2000" by code_simp
  have n1: "now_start later_env = 3000" by (simp add: later_env_def demo_env_def)
  have n2: "now_start expired_env = 3602000" by (simp add: expired_env_def demo_env_def)
  have fresh: "now_start later_env - timestamp warm_cache < 60 * 60 * 1000"
    unfolding n1 t by simp
  have stale: "now_start expired_env - timestamp warm_cache = 60 * 60 * 1000"
    unfolding n2 t by simp
  note hit = cache_hit_iff [OF reachable_warm_cache, of later_env "''canon camera''" demo_event]
  note miss = cache_hit_iff [OF reachable_warm_cache, of expired_env "''canon camera''" demo_event]
  from hit d q fresh obtain p where p: "cache_lookup later_env warm_cache ''canon camera'' = Some p"
    by blast
  with hit demo_request(1) have served: "payload_cached p
      \<and> handler later_env warm_cache demo_event
        = (\<lparr>statusCode = 200, headers = cors_headers, body = JsonPayload p\<rparr>, warm_cache, [])"
    by blast
  from miss stale have none: "cache_lookup expired_env warm_cache ''canon camera'' = None"
    by (cases "cache_lookup expired_env warm_cache ''canon camera''") auto
  with miss demo_request have again:
    "\<exists>calls. snd (snd (handler expired_env warm_cache demo_event))
                = BeeGet (bee_key expired_env) (scrapURL ''canon camera'') # calls"
    by blast
  show ?thesis
    using reachable_warm_cache d q fresh p served stale none again by blast
qed


end
